theory Spec2Isabelle
  imports Complex_Main "HOL-Library.AList"
begin

section \<open>Reference parser (formula\_parser.py)\<close>

subsection \<open>Cell references\<close>

text \<open>The dataclass \<open>CellRef\<close>: a column key and a row number, equal when both fields are.\<close>

datatype CellRef = CellRef (column: string) (row: int)

subsection \<open>Characters\<close>

definition ord :: "char \<Rightarrow> int" where
  "ord c = of_char c"

definition chr :: "int \<Rightarrow> char" where
  "chr n = char_of n"

definition is_upper_letter :: "char \<Rightarrow> bool" where
  "is_upper_letter c = (65 \<le> ord c \<and> ord c \<le> 90)"

definition is_lower_letter :: "char \<Rightarrow> bool" where
  "is_lower_letter c = (97 \<le> ord c \<and> ord c \<le> 122)"

definition is_digit :: "char \<Rightarrow> bool" where
  "is_digit c = (48 \<le> ord c \<and> ord c \<le> 57)"

text \<open>\<open>str.upper()\<close> on ASCII text: the small letters move to the capitals, every other
  character stays.\<close>

definition upper_char :: "char \<Rightarrow> char" where
  "upper_char c = (if is_lower_letter c then chr (ord c - 32) else c)"

definition upper :: "string \<Rightarrow> string" where
  "upper s = map upper_char s"

subsection \<open>Column letters and numbers\<close>

text \<open>\<open>_column_to_number\<close>: the loop \<open>result = result * 26 + (ord(char) - ord('A') + 1)\<close>
  over the upper-cased column.\<close>

definition column_to_number :: "string \<Rightarrow> int" where
  "column_to_number col = foldl (\<lambda>result char. result * 26 + (ord char - ord CHR ''A'' + 1)) 0 (upper col)"

text \<open>\<open>_number_to_column\<close>: the \<open>while num > 0\<close> loop, with the accumulated string.\<close>

function number_to_column_loop :: "int \<Rightarrow> string \<Rightarrow> string" where
  "number_to_column_loop num result =
     (if num > 0
      then number_to_column_loop ((num - 1) div 26) (chr (ord CHR ''A'' + ((num - 1) mod 26)) # result)
      else result)"
  by pat_completeness auto
termination
  by (relation "measure (\<lambda>(num, result). nat num)") auto

definition number_to_column :: "int \<Rightarrow> string" where
  "number_to_column num = number_to_column_loop num []"

subsection \<open>Python sets as duplicate-free lists\<close>

text \<open>A Python \<open>set\<close> is a list without duplicates; \<open>add\<close> keeps an element that is
  already there, \<open>discard\<close> removes it, \<open>update\<close> adds each element in turn. Iterating
  follows the list; no theorem below depends on that order.\<close>

definition set_add :: "'a \<Rightarrow> 'a list \<Rightarrow> 'a list" where
  "set_add x xs = (if x \<in> set xs then xs else xs @ [x])"

definition set_discard :: "'a \<Rightarrow> 'a list \<Rightarrow> 'a list" where
  "set_discard x xs = removeAll x xs"

definition set_update :: "'a list \<Rightarrow> 'a list \<Rightarrow> 'a list" where
  "set_update xs ys = foldl (\<lambda>acc y. set_add y acc) xs ys"

subsection \<open>Range expansion\<close>

text \<open>\<open>_expand_range\<close>: both corners are put in order, then every column number and
  every row of the rectangle gives one cell.\<close>

definition expand_range :: "string \<Rightarrow> int \<Rightarrow> string \<Rightarrow> int \<Rightarrow> CellRef list" where
  "expand_range start_col start_row end_col end_row =
     (let start_col_num = column_to_number start_col;
          end_col_num = column_to_number end_col;
          (start_col_num, end_col_num) =
             (if start_col_num > end_col_num then (end_col_num, start_col_num)
              else (start_col_num, end_col_num));
          (start_row, end_row) =
             (if start_row > end_row then (end_row, start_row) else (start_row, end_row))
      in foldl (\<lambda>cells col_num.
                  foldl (\<lambda>cells rw. set_add (CellRef (number_to_column col_num) rw) cells)
                        cells [start_row..end_row])
               [] [start_col_num..end_col_num])"

subsection \<open>The regular expressions\<close>

text \<open>The patterns \<open>\b([A-Z]+)(\d+)\b\<close> and \<open>\b([A-Z]+)(\d+):([A-Z]+)(\d+)\b\<close> on ASCII
  text. A word character is a letter, a digit or the underscore. The greedy groups can
  only match whole runs: a shorter run of letters is followed by a letter, not a digit, and
  a shorter run of digits is followed by a digit, which is neither a colon nor a word
  boundary. \<open>prev\<close> is the character before the position tried.\<close>

definition is_word_char :: "char \<Rightarrow> bool" where
  "is_word_char c = (is_upper_letter c \<or> is_lower_letter c \<or> is_digit c \<or> c = CHR ''_'')"

definition at_boundary :: "char option \<Rightarrow> string \<Rightarrow> bool" where
  "at_boundary prev s =
     ((case prev of None \<Rightarrow> False | Some p \<Rightarrow> is_word_char p)
       \<noteq> (case s of [] \<Rightarrow> False | c # _ \<Rightarrow> is_word_char c))"

definition letters_digits :: "string \<Rightarrow> (string \<times> string \<times> string) option" where
  "letters_digits s =
     (let col = takeWhile is_upper_letter s;
          s1 = dropWhile is_upper_letter s;
          rw = takeWhile is_digit s1;
          s2 = dropWhile is_digit s1
      in if col = [] \<or> rw = [] then None else Some (col, rw, s2))"

definition match_cell :: "char option \<Rightarrow> string \<Rightarrow> ((string \<times> string) \<times> string) option" where
  "match_cell prev s =
     (if \<not> at_boundary prev s then None
      else case letters_digits s of
             None \<Rightarrow> None
           | Some (col, rw, rest) \<Rightarrow>
               if at_boundary (Some (last rw)) rest then Some ((col, rw), rest) else None)"

definition match_range ::
  "char option \<Rightarrow> string \<Rightarrow> ((string \<times> string \<times> string \<times> string) \<times> string) option" where
  "match_range prev s =
     (if \<not> at_boundary prev s then None
      else case letters_digits s of
             None \<Rightarrow> None
           | Some (start_col, start_row, s1) \<Rightarrow>
               (case s1 of
                  [] \<Rightarrow> None
                | c # s2 \<Rightarrow>
                    if c \<noteq> CHR '':'' then None
                    else case letters_digits s2 of
                           None \<Rightarrow> None
                         | Some (end_col, end_row, rest) \<Rightarrow>
                             if at_boundary (Some (last end_row)) rest
                             then Some ((start_col, start_row, end_col, end_row), rest)
                             else None))"

lemma letters_digits_shorter:
  "letters_digits s = Some (col, rw, rest) \<Longrightarrow> length rest < length s"
proof -
  assume a: "letters_digits s = Some (col, rw, rest)"
  then have c: "takeWhile is_upper_letter s \<noteq> []"
    and r: "rest = dropWhile is_digit (dropWhile is_upper_letter s)"
    by (auto simp: letters_digits_def Let_def split: if_splits)
  have "length (dropWhile is_upper_letter s) < length s"
    using c by (cases s) (auto simp: length_dropWhile_le le_imp_less_Suc split: if_splits)
  moreover have "length rest \<le> length (dropWhile is_upper_letter s)"
    unfolding r by (rule length_dropWhile_le)
  ultimately show ?thesis by simp
qed

lemma match_cell_shorter:
  "match_cell prev s = Some (g, rest) \<Longrightarrow> length rest < length s"
  by (auto simp: match_cell_def split: if_splits option.splits dest: letters_digits_shorter)

lemma match_range_shorter:
  "match_range prev s = Some (g, rest) \<Longrightarrow> length rest < length s"
  by (fastforce simp: match_range_def split: if_splits option.splits list.splits
      dest: letters_digits_shorter)

text \<open>\<open>findall\<close> and \<open>sub('', ...)\<close>: the scan tries each position from the left and, after a
  match, goes on behind it.\<close>

function cell_findall :: "char option \<Rightarrow> string \<Rightarrow> (string \<times> string) list" where
  "cell_findall prev [] = []"
| "cell_findall prev (c # cs) =
     (case match_cell prev (c # cs) of
        Some ((col, rw), rest) \<Rightarrow> (col, rw) # cell_findall (Some (last rw)) rest
      | None \<Rightarrow> cell_findall (Some c) cs)"
  by pat_completeness auto
termination
  by (relation "measure (\<lambda>(prev, s). length s)") (auto dest: match_cell_shorter)

function range_findall ::
  "char option \<Rightarrow> string \<Rightarrow> (string \<times> string \<times> string \<times> string) list" where
  "range_findall prev [] = []"
| "range_findall prev (c # cs) =
     (case match_range prev (c # cs) of
        Some ((start_col, start_row, end_col, end_row), rest) \<Rightarrow>
          (start_col, start_row, end_col, end_row) # range_findall (Some (last end_row)) rest
      | None \<Rightarrow> range_findall (Some c) cs)"
  by pat_completeness auto
termination
  by (relation "measure (\<lambda>(prev, s). length s)") (auto dest: match_range_shorter)

function range_sub :: "char option \<Rightarrow> string \<Rightarrow> string" where
  "range_sub prev [] = []"
| "range_sub prev (c # cs) =
     (case match_range prev (c # cs) of
        Some ((start_col, start_row, end_col, end_row), rest) \<Rightarrow>
          range_sub (Some (last end_row)) rest
      | None \<Rightarrow> c # range_sub (Some c) cs)"
  by pat_completeness auto
termination
  by (relation "measure (\<lambda>(prev, s). length s)") (auto dest: match_range_shorter)

text \<open>\<open>int(...)\<close> of a string of decimal digits.\<close>

definition int_of_digits :: "string \<Rightarrow> int" where
  "int_of_digits s = foldl (\<lambda>n c. n * 10 + (ord c - ord CHR ''0'')) 0 s"

subsection \<open>Dependencies of a formula\<close>

definition extract_dependencies :: "string \<Rightarrow> CellRef list" where
  "extract_dependencies formula0 =
     (let formula = (case formula0 of c # cs \<Rightarrow> if c = CHR ''='' then cs else formula0 | [] \<Rightarrow> formula0);
          range_matches = range_findall None (upper formula);
          dependencies =
            foldl (\<lambda>deps (start_col, start_row, end_col, end_row).
                     set_update deps
                       (expand_range start_col (int_of_digits start_row) end_col (int_of_digits end_row)))
                  [] range_matches;
          formula_without_ranges = range_sub None (upper formula);
          cell_matches = cell_findall None formula_without_ranges
      in foldl (\<lambda>deps (col, rw). set_add (CellRef col (int_of_digits rw)) deps)
               dependencies cell_matches)"

text \<open>A corner of a range as it is written: capital letters, then decimal digits.\<close>

definition valid_column :: "string \<Rightarrow> bool" where
  "valid_column c = (c \<noteq> [] \<and> list_all is_upper_letter c)"

definition valid_row :: "string \<Rightarrow> bool" where
  "valid_row r = (r \<noteq> [] \<and> list_all is_digit r)"

section \<open>Dependency graph (dependency\_graph.py)\<close>

subsection \<open>Dictionaries\<close>

text \<open>A \<open>dict\<close> is an association list in insertion order: assigning to a key that is
  present replaces its value in place, a new key goes to the end, \<open>del\<close> removes the
  entry. A \<open>defaultdict(set)\<close> reads a missing key as the empty set and a
  \<open>defaultdict(int)\<close> as \<open>0\<close>. (Reading a missing key of a \<open>defaultdict\<close> also stores
  the default under it; a later read returns the same default either way, so reads are
  modelled without that store.)\<close>

definition dict_keys :: "('k \<times> 'v) list \<Rightarrow> 'k list" where
  "dict_keys d = map fst d"

definition dict_contains :: "('k \<times> 'v) list \<Rightarrow> 'k \<Rightarrow> bool" where
  "dict_contains d k = (k \<in> set (dict_keys d))"

definition dict_set :: "'k \<Rightarrow> 'v \<Rightarrow> ('k \<times> 'v) list \<Rightarrow> ('k \<times> 'v) list" where
  "dict_set k v d = AList.update k v d"

definition dict_del :: "'k \<Rightarrow> ('k \<times> 'v) list \<Rightarrow> ('k \<times> 'v) list" where
  "dict_del k d = AList.delete k d"

definition adj_get :: "('k \<times> 'a list) list \<Rightarrow> 'k \<Rightarrow> 'a list" where
  "adj_get d k = (case map_of d k of Some xs \<Rightarrow> xs | None \<Rightarrow> [])"

definition deg_get :: "('k \<times> int) list \<Rightarrow> 'k \<Rightarrow> int" where
  "deg_get d k = (case map_of d k of Some n \<Rightarrow> n | None \<Rightarrow> 0)"

subsection \<open>Nodes and the graph\<close>

text \<open>The dataclass \<open>FormulaNode\<close> (its field \<open>value\<close> is \<open>node_value\<close> here) and the
  fields of \<open>DependencyGraph\<close>.\<close>

record 'v FormulaNode =
  cell_ref :: CellRef
  formula :: string
  dependencies :: "CellRef list"
  dependents :: "CellRef list"
  node_value :: "'v option"
  is_evaluated :: bool
  has_error :: bool
  error_message :: "string option"

record 'v DependencyGraph =
  nodes :: "(CellRef \<times> 'v FormulaNode) list"
  adjacency_list :: "(CellRef \<times> CellRef list) list"
  reverse_adjacency_list :: "(CellRef \<times> CellRef list) list"
  evaluation_order :: "CellRef list"
  dirty_cells :: "CellRef list"

definition empty_graph :: "'v DependencyGraph" where
  "empty_graph = \<lparr>nodes = [], adjacency_list = [], reverse_adjacency_list = [],
                   evaluation_order = [], dirty_cells = []\<rparr>"

subsection \<open>Removing a node\<close>

text \<open>\<open>_remove_node\<close>: the first loop runs over the node's dependencies, the second over
  its dependents as they are after the first loop, then the node's own entries go.\<close>

definition remove_dependency_edge :: "CellRef \<Rightarrow> 'v DependencyGraph \<Rightarrow> CellRef \<Rightarrow> 'v DependencyGraph" where
  "remove_dependency_edge cell g dep =
     (let g1 = g\<lparr>adjacency_list :=
                   dict_set dep (set_discard cell (adj_get (adjacency_list g) dep)) (adjacency_list g)\<rparr>
      in case map_of (nodes g1) dep of
           Some dn \<Rightarrow> g1\<lparr>nodes := dict_set dep (dn\<lparr>dependents := set_discard cell (dependents dn)\<rparr>) (nodes g1)\<rparr>
         | None \<Rightarrow> g1)"

definition remove_dependent_edge :: "CellRef \<Rightarrow> 'v DependencyGraph \<Rightarrow> CellRef \<Rightarrow> 'v DependencyGraph" where
  "remove_dependent_edge cell g dependent_cell =
     (let g1 = g\<lparr>reverse_adjacency_list :=
                   dict_set dependent_cell (set_discard cell (adj_get (reverse_adjacency_list g) dependent_cell))
                     (reverse_adjacency_list g)\<rparr>
      in case map_of (nodes g1) dependent_cell of
           Some dn \<Rightarrow> g1\<lparr>nodes := dict_set dependent_cell (dn\<lparr>dependencies := set_discard cell (dependencies dn)\<rparr>) (nodes g1)\<rparr>
         | None \<Rightarrow> g1)"

definition remove_node :: "CellRef \<Rightarrow> 'v DependencyGraph \<Rightarrow> 'v DependencyGraph" where
  "remove_node cell g =
     (case map_of (nodes g) cell of
        None \<Rightarrow> g
      | Some node \<Rightarrow>
          let g1 = foldl (remove_dependency_edge cell) g (dependencies node);
              node_dependents = (case map_of (nodes g1) cell of Some n \<Rightarrow> dependents n | None \<Rightarrow> []);
              g2 = foldl (remove_dependent_edge cell) g1 node_dependents;
              g3 = g2\<lparr>adjacency_list := dict_del cell (adjacency_list g2),
                       reverse_adjacency_list := dict_del cell (reverse_adjacency_list g2)\<rparr>
          in g3\<lparr>nodes := dict_del cell (nodes g3)\<rparr>)"

subsection \<open>Depth-first search\<close>

text \<open>The nested function \<open>dfs\<close> of \<open>has_circular_dependency\<close> and its \<open>for\<close> loop over the
  neighbours. The two sets \<open>visited\<close> and \<open>rec_stack\<close> are passed through. The first
  argument bounds the depth of the recursion; \<open>None\<close> means the bound was reached, and the
  bound used below is proved to be enough. \<open>current_path[current_path.index(neighbor):]\<close>
  drops the path before the first occurrence of the neighbour, which is on the path
  whenever it is on the recursion stack (lemma \<open>dfs_invariants\<close>).\<close>

type_synonym dfs_state = "CellRef list \<times> CellRef list"

fun dfs :: "nat \<Rightarrow> (CellRef \<times> CellRef list) list \<Rightarrow> CellRef \<Rightarrow> CellRef list \<Rightarrow> dfs_state
              \<Rightarrow> (CellRef list option \<times> dfs_state) option"
and dfs_neighbors :: "nat \<Rightarrow> (CellRef \<times> CellRef list) list \<Rightarrow> CellRef list \<Rightarrow> CellRef \<Rightarrow> CellRef list
              \<Rightarrow> dfs_state \<Rightarrow> (CellRef list option \<times> dfs_state) option" where
  "dfs 0 adj node path (visited, rec_stack) = None"
| "dfs (Suc n) adj node path (visited, rec_stack) =
     dfs_neighbors n adj (adj_get adj node) node (path @ [node])
       (set_add node visited, set_add node rec_stack)"
| "dfs_neighbors n adj [] node current_path (visited, rec_stack) =
     Some (None, (visited, set_discard node rec_stack))"
| "dfs_neighbors n adj (neighbor # rest) node current_path (visited, rec_stack) =
     (if neighbor \<notin> set visited then
        (case dfs n adj neighbor current_path (visited, rec_stack) of
           None \<Rightarrow> None
         | Some (Some cycle, s) \<Rightarrow> Some (Some cycle, s)
         | Some (None, s) \<Rightarrow> dfs_neighbors n adj rest node current_path s)
      else if neighbor \<in> set rec_stack then
        Some (Some (dropWhile (\<lambda>c. c \<noteq> neighbor) current_path @ [neighbor]), (visited, rec_stack))
      else dfs_neighbors n adj rest node current_path (visited, rec_stack))"

text \<open>The loop \<open>for node in self.nodes\<close> of \<open>has_circular_dependency\<close>.\<close>

fun dfs_all :: "nat \<Rightarrow> (CellRef \<times> CellRef list) list \<Rightarrow> CellRef list \<Rightarrow> dfs_state
              \<Rightarrow> (bool \<times> CellRef list option) option" where
  "dfs_all n adj [] s = Some (False, None)"
| "dfs_all n adj (node # rest) (visited, rec_stack) =
     (if node \<notin> set visited then
        (case dfs n adj node [] (visited, rec_stack) of
           None \<Rightarrow> None
         | Some (Some cycle, s) \<Rightarrow> Some (True, Some cycle)
         | Some (None, s) \<Rightarrow> dfs_all n adj rest s)
      else dfs_all n adj rest (visited, rec_stack))"

text \<open>Every cell a search can reach is a start node or a member of some adjacency set, so
  the recursion is never deeper than their number.\<close>

definition depth_bound :: "(CellRef \<times> CellRef list) list \<Rightarrow> CellRef list \<Rightarrow> nat" where
  "depth_bound adj starts = Suc (length starts + length (concat (map snd adj)))"

definition has_circular_dependency :: "'v DependencyGraph \<Rightarrow> (bool \<times> CellRef list option) option" where
  "has_circular_dependency g =
     dfs_all (depth_bound (adjacency_list g) (dict_keys (nodes g)))
       (adjacency_list g) (dict_keys (nodes g)) ([], [])"

text \<open>\<open>_would_create_cycle\<close>: the adjacency sets are copied, the new edges added to the
  copy, and \<open>has_cycle_dfs\<close> is run from every node and from the new cell.\<close>

fun has_cycle_dfs :: "nat \<Rightarrow> (CellRef \<times> CellRef list) list \<Rightarrow> CellRef \<Rightarrow> dfs_state
              \<Rightarrow> (bool \<times> dfs_state) option"
and has_cycle_dfs_neighbors :: "nat \<Rightarrow> (CellRef \<times> CellRef list) list \<Rightarrow> CellRef list \<Rightarrow> CellRef
              \<Rightarrow> dfs_state \<Rightarrow> (bool \<times> dfs_state) option" where
  "has_cycle_dfs 0 adj node (visited, rec_stack) = None"
| "has_cycle_dfs (Suc n) adj node (visited, rec_stack) =
     has_cycle_dfs_neighbors n adj (adj_get adj node) node
       (set_add node visited, set_add node rec_stack)"
| "has_cycle_dfs_neighbors n adj [] node (visited, rec_stack) =
     Some (False, (visited, set_discard node rec_stack))"
| "has_cycle_dfs_neighbors n adj (neighbor # rest) node (visited, rec_stack) =
     (if neighbor \<notin> set visited then
        (case has_cycle_dfs n adj neighbor (visited, rec_stack) of
           None \<Rightarrow> None
         | Some (True, s) \<Rightarrow> Some (True, s)
         | Some (False, s) \<Rightarrow> has_cycle_dfs_neighbors n adj rest node s)
      else if neighbor \<in> set rec_stack then Some (True, (visited, rec_stack))
      else has_cycle_dfs_neighbors n adj rest node (visited, rec_stack))"

fun has_cycle_all :: "nat \<Rightarrow> (CellRef \<times> CellRef list) list \<Rightarrow> CellRef list \<Rightarrow> dfs_state
              \<Rightarrow> bool option" where
  "has_cycle_all n adj [] s = Some False"
| "has_cycle_all n adj (node # rest) (visited, rec_stack) =
     (if node \<notin> set visited then
        (case has_cycle_dfs n adj node (visited, rec_stack) of
           None \<Rightarrow> None
         | Some (True, s) \<Rightarrow> Some True
         | Some (False, s) \<Rightarrow> has_cycle_all n adj rest s)
      else has_cycle_all n adj rest (visited, rec_stack))"

definition temp_adjacency :: "'v DependencyGraph \<Rightarrow> CellRef \<Rightarrow> CellRef list \<Rightarrow> (CellRef \<times> CellRef list) list" where
  "temp_adjacency g new_cell deps =
     foldl (\<lambda>temp dep. dict_set dep (set_add new_cell (adj_get temp dep)) temp) (adjacency_list g) deps"

definition would_create_cycle :: "'v DependencyGraph \<Rightarrow> CellRef \<Rightarrow> CellRef list \<Rightarrow> bool option" where
  "would_create_cycle g new_cell deps =
     (let temp = temp_adjacency g new_cell deps;
          all_nodes = set_add new_cell (dict_keys (nodes g))
      in has_cycle_all (depth_bound temp all_nodes) temp all_nodes ([], []))"

subsection \<open>Dirty cells\<close>

text \<open>\<open>_mark_dirty\<close>: the \<open>while dirty_queue\<close> loop; a cell that is already dirty is
  skipped, a new one is added and its node's dependents are queued.\<close>

function mark_dirty_loop :: "(CellRef \<times> 'v FormulaNode) list \<Rightarrow> CellRef list \<Rightarrow> CellRef list \<Rightarrow> CellRef list" where
  "mark_dirty_loop ns [] dirty = dirty"
| "mark_dirty_loop ns (current # queue) dirty =
     (if current \<in> set dirty then mark_dirty_loop ns queue dirty
      else mark_dirty_loop ns
             (queue @ (case map_of ns current of Some n \<Rightarrow> dependents n | None \<Rightarrow> []))
             (set_add current dirty))"
  by pat_completeness auto
termination
proof (relation "measures [\<lambda>(ns, q, d). card ((set q \<union> (\<Union>n\<in>set ns. set (dependents (snd n)))) - set d),
                           \<lambda>(ns, q, d). length q]", goal_cases)
  case 1
  show ?case by simp
next
  case (2 ns current queue dirty)
  have "card ((set queue \<union> (\<Union>n\<in>set ns. set (dependents (snd n)))) - set dirty)
      \<le> card ((set (current # queue) \<union> (\<Union>n\<in>set ns. set (dependents (snd n)))) - set dirty)"
    by (rule card_mono) auto
  then show ?case by auto
next
  case (3 ns current queue dirty)
  let ?D = "\<Union>n\<in>set ns. set (dependents (snd n))"
  let ?new = "case map_of ns current of Some n \<Rightarrow> dependents n | None \<Rightarrow> []"
  have sub: "set ?new \<subseteq> ?D"
  proof (cases "map_of ns current")
    case None
    then show ?thesis by simp
  next
    case (Some n)
    then have "(current, n) \<in> set ns" by (rule map_of_SomeD)
    then show ?thesis using Some by force
  qed
  have "(set (queue @ ?new) \<union> ?D) - set (set_add current dirty)
      \<subset> (set (current # queue) \<union> ?D) - set dirty"
    using 3 sub by (auto simp: set_add_def)
  then have "card ((set (queue @ ?new) \<union> ?D) - set (set_add current dirty))
      < card ((set (current # queue) \<union> ?D) - set dirty)"
    by (intro psubset_card_mono) auto
  then show ?case by simp
qed

definition mark_dirty :: "CellRef \<Rightarrow> 'v DependencyGraph \<Rightarrow> 'v DependencyGraph" where
  "mark_dirty cell g = g\<lparr>dirty_cells := mark_dirty_loop (nodes g) [cell] (dirty_cells g)\<rparr>"

subsection \<open>Evaluation order\<close>

text \<open>\<open>_update_evaluation_order\<close> (Kahn's algorithm): the in-degree of a node counts its
  dependencies that are nodes; the queue starts with the nodes of in-degree \<open>0\<close>; taking
  a node off the queue lowers the in-degree of each of its adjacent nodes and queues those
  that reach \<open>0\<close>.\<close>

definition in_degree_init :: "(CellRef \<times> 'v FormulaNode) list \<Rightarrow> (CellRef \<times> int) list" where
  "in_degree_init ns =
     foldl (\<lambda>in_degree (node, fnode).
              foldl (\<lambda>in_degree dep.
                       if dict_contains ns dep
                       then dict_set node (deg_get in_degree node + 1) in_degree
                       else in_degree)
                    (dict_set node 0 in_degree) (dependencies fnode))
           [] ns"

definition kahn_step :: "(CellRef \<times> 'v FormulaNode) list
     \<Rightarrow> (CellRef \<times> int) list \<times> CellRef list \<Rightarrow> CellRef \<Rightarrow> (CellRef \<times> int) list \<times> CellRef list" where
  "kahn_step ns = (\<lambda>(in_degree, queue) dependent_cell.
     if dict_contains ns dependent_cell
     then (let in_degree1 = dict_set dependent_cell (deg_get in_degree dependent_cell - 1) in_degree
           in if deg_get in_degree1 dependent_cell = 0 then (in_degree1, queue @ [dependent_cell])
              else (in_degree1, queue))
     else (in_degree, queue))"

definition positive_count :: "(CellRef \<times> int) list \<Rightarrow> nat" where
  "positive_count d = card {k. deg_get d k > 0}"

lemma deg_get_set: "deg_get (dict_set k v d) k' = (if k' = k then v else deg_get d k')"
  by (simp add: deg_get_def dict_set_def update_conv')

lemma finite_positive: "finite {k. deg_get d k > 0}"
proof -
  have "{k. deg_get d k > 0} \<subseteq> fst ` set d"
    by (auto simp: deg_get_def split: option.splits dest!: map_of_SomeD intro: rev_image_eqI)
  then show ?thesis by (rule finite_subset) simp
qed

lemma kahn_step_measure:
  "kahn_step ns (d, q) x = (d', q') \<Longrightarrow> positive_count d' + length q' \<le> positive_count d + length q"
proof -
  assume a: "kahn_step ns (d, q) x = (d', q')"
  show ?thesis
  proof (cases "dict_contains ns x")
    case False
    with a show ?thesis by (simp add: kahn_step_def)
  next
    case True
    let ?d1 = "dict_set x (deg_get d x - 1) d"
    have d': "d' = ?d1" using a True by (auto simp: kahn_step_def Let_def split: if_splits)
    show ?thesis
    proof (cases "deg_get d x = 1")
      case one: True
      have q': "q' = q @ [x]" using a True one by (auto simp: kahn_step_def Let_def deg_get_set)
      have "{k. deg_get ?d1 k > 0} = {k. deg_get d k > 0} - {x}"
        using one by (auto simp: deg_get_set)
      moreover have "x \<in> {k. deg_get d k > 0}" using one by simp
      ultimately have "positive_count ?d1 < positive_count d"
        unfolding positive_count_def
        by (metis card_Diff1_less finite_positive)
      then show ?thesis using d' q' by simp
    next
      case notone: False
      have q': "q' = q" using a True notone by (auto simp: kahn_step_def Let_def deg_get_set)
      have "{k. deg_get ?d1 k > 0} \<subseteq> {k. deg_get d k > 0}"
        by (auto simp: deg_get_set split: if_splits)
      then have "positive_count ?d1 \<le> positive_count d"
        unfolding positive_count_def by (intro card_mono finite_positive)
      then show ?thesis using d' q' by simp
    qed
  qed
qed

lemma kahn_fold_measure:
  "foldl (kahn_step ns) (d, q) xs = (d', q') \<Longrightarrow> positive_count d' + length q' \<le> positive_count d + length q"
proof (induction xs arbitrary: d q)
  case Nil
  then show ?case by simp
next
  case (Cons x xs)
  obtain d1 q1 where s: "kahn_step ns (d, q) x = (d1, q1)" by (cases "kahn_step ns (d, q) x")
  from Cons.prems s have "foldl (kahn_step ns) (d1, q1) xs = (d', q')" by simp
  from Cons.IH [OF this] kahn_step_measure [OF s] show ?case by simp
qed

function kahn_loop :: "(CellRef \<times> 'v FormulaNode) list \<Rightarrow> (CellRef \<times> CellRef list) list
     \<Rightarrow> (CellRef \<times> int) list \<Rightarrow> CellRef list \<Rightarrow> CellRef list \<Rightarrow> CellRef list" where
  "kahn_loop ns adj in_degree [] result = result"
| "kahn_loop ns adj in_degree (current # queue) result =
     (case foldl (kahn_step ns) (in_degree, queue) (adj_get adj current) of
        (in_degree', queue') \<Rightarrow> kahn_loop ns adj in_degree' queue' (result @ [current]))"
  by pat_completeness auto
termination
  by (relation "measure (\<lambda>(ns, adj, d, q, r). positive_count d + length q)")
     (auto dest!: kahn_fold_measure [OF sym])

definition update_evaluation_order :: "'v DependencyGraph \<Rightarrow> 'v DependencyGraph" where
  "update_evaluation_order g =
     (let formula_nodes = dict_keys (nodes g)
      in if formula_nodes = [] then g\<lparr>evaluation_order := []\<rparr>
         else let in_degree = in_degree_init (nodes g);
                  queue = filter (\<lambda>node. deg_get in_degree node = 0) formula_nodes;
                  result = kahn_loop (nodes g) (adjacency_list g) in_degree queue []
              in g\<lparr>evaluation_order := result\<rparr>)"

subsection \<open>Adding a formula\<close>

text \<open>\<open>add_formula\<close>: an existing node at the cell is removed first; when the cycle
  check fires (or the search fails, which the \<open>except\<close> clause turns into \<open>False\<close> as
  well) the graph stays as it is after that removal; otherwise the node is stored with an
  empty \<open>dependents\<close> set, the edges are added, the cell is marked dirty and the
  evaluation order is recomputed.\<close>

definition add_dependency_edge :: "CellRef \<Rightarrow> 'v DependencyGraph \<Rightarrow> CellRef \<Rightarrow> 'v DependencyGraph" where
  "add_dependency_edge cell g dep =
     (let g1 = g\<lparr>adjacency_list := dict_set dep (set_add cell (adj_get (adjacency_list g) dep)) (adjacency_list g),
                  reverse_adjacency_list :=
                    dict_set cell (set_add dep (adj_get (reverse_adjacency_list g) cell)) (reverse_adjacency_list g)\<rparr>
      in case map_of (nodes g1) dep of
           Some dn \<Rightarrow> g1\<lparr>nodes := dict_set dep (dn\<lparr>dependents := set_add cell (dependents dn)\<rparr>) (nodes g1)\<rparr>
         | None \<Rightarrow> g1)"

definition add_formula :: "CellRef \<Rightarrow> string \<Rightarrow> CellRef list \<Rightarrow> 'v DependencyGraph \<Rightarrow> bool \<times> 'v DependencyGraph" where
  "add_formula cell formula_text deps g0 =
     (let g = (if dict_contains (nodes g0) cell then remove_node cell g0 else g0);
          node = \<lparr>cell_ref = cell, formula = formula_text, dependencies = deps, dependents = [],
                  node_value = None, is_evaluated = False, has_error = False, error_message = None\<rparr>
      in case would_create_cycle g cell deps of
           None \<Rightarrow> (False, g)
         | Some True \<Rightarrow> (False, g)
         | Some False \<Rightarrow>
             (let g1 = g\<lparr>nodes := dict_set cell node (nodes g)\<rparr>;
                  g2 = foldl (add_dependency_edge cell) g1 deps;
                  g3 = mark_dirty cell g2
              in (True, update_evaluation_order g3)))"

subsection \<open>Reading and marking\<close>

definition get_evaluation_order :: "'v DependencyGraph \<Rightarrow> CellRef list" where
  "get_evaluation_order g = evaluation_order g"

definition get_dirty_cells :: "'v DependencyGraph \<Rightarrow> CellRef list" where
  "get_dirty_cells g = dirty_cells g"

definition mark_cell_evaluated :: "CellRef \<Rightarrow> 'v option \<Rightarrow> bool \<Rightarrow> string option \<Rightarrow> 'v DependencyGraph \<Rightarrow> 'v DependencyGraph" where
  "mark_cell_evaluated cell v err msg g =
     (case map_of (nodes g) cell of
        Some node \<Rightarrow>
          g\<lparr>nodes := dict_set cell (node\<lparr>node_value := v, is_evaluated := True, has_error := err,
                                          error_message := msg\<rparr>) (nodes g),
            dirty_cells := set_discard cell (dirty_cells g)\<rparr>
      | None \<Rightarrow> g)"

subsection \<open>The objects behind the getters\<close>

text \<open>\<open>get_evaluation_order\<close> and \<open>get_dirty_cells\<close> return \<open>self._evaluation_order.copy()\<close>
  and \<open>self._dirty_cells.copy()\<close>. What a copy is shows only when objects have an identity,
  so here the list and the set live in a heap of objects, the graph holds their addresses,
  \<open>copy\<close> allocates a new object with the same elements, and a mutation of an object
  replaces the contents at its address.\<close>

type_synonym addr = nat

type_synonym heap = "CellRef list list"

record graph_refs =
  evaluation_order_ref :: addr
  dirty_cells_ref :: addr

definition heap_copy :: "addr \<Rightarrow> heap \<Rightarrow> addr \<times> heap" where
  "heap_copy a h = (length h, h @ [h ! a])"

definition heap_mutate :: "addr \<Rightarrow> CellRef list \<Rightarrow> heap \<Rightarrow> heap" where
  "heap_mutate a contents h = h[a := contents]"

definition get_evaluation_order_obj :: "graph_refs \<Rightarrow> heap \<Rightarrow> addr \<times> heap" where
  "get_evaluation_order_obj g h = heap_copy (evaluation_order_ref g) h"

definition get_dirty_cells_obj :: "graph_refs \<Rightarrow> heap \<Rightarrow> addr \<times> heap" where
  "get_dirty_cells_obj g h = heap_copy (dirty_cells_ref g) h"

definition refs_valid :: "graph_refs \<Rightarrow> heap \<Rightarrow> bool" where
  "refs_valid g h = (evaluation_order_ref g < length h \<and> dirty_cells_ref g < length h)"

section \<open>Formula engine (enhanced\_formula\_engine.py)\<close>

subsection \<open>Values and numbers\<close>

text \<open>A cell holds a number, a string or \<open>None\<close>; a formula evaluates to a number or to an
  error token, which is a string. Python's numbers (\<open>int\<close> and \<open>float\<close>) are a type
  parameter \<open>'n\<close>, and what the engine does with them comes in a record of operations:
  \<open>parse_float\<close> is \<open>float(s)\<close> on a string (\<open>None\<close> when it raises \<open>ValueError\<close>), \<open>zero\<close>
  is the literal \<open>0\<close>, \<open>of_count\<close> turns an \<open>int\<close> counter into a number, \<open>is_zero\<close> is the
  test \<open>x == 0\<close> (the same numbers are the falsy ones), \<open>f_less\<close> is \<open><\<close>, \<open>number_str\<close> is
  \<open>str(x)\<close> and \<open>format_number\<close> is \<open>_format_number\<close>.\<close>

datatype 'n pyval = Number 'n | Text string | NoneVal

record 'n float_ops =
  parse_float :: "string \<Rightarrow> 'n option"
  zero :: 'n
  of_count :: "int \<Rightarrow> 'n"
  f_add :: "'n \<Rightarrow> 'n \<Rightarrow> 'n"
  f_sub :: "'n \<Rightarrow> 'n \<Rightarrow> 'n"
  f_mul :: "'n \<Rightarrow> 'n \<Rightarrow> 'n"
  f_div :: "'n \<Rightarrow> 'n \<Rightarrow> 'n"
  is_zero :: "'n \<Rightarrow> bool"
  f_less :: "'n \<Rightarrow> 'n \<Rightarrow> bool"
  number_str :: "'n \<Rightarrow> string"
  format_number :: "'n \<Rightarrow> string"

record column_def =
  key :: string
  title :: string

type_synonym 'n grid_row = "(string \<times> 'n pyval) list"

type_synonym 'n grid = "'n grid_row list"

definition ERROR_TOKEN :: string where
  "ERROR_TOKEN = ''#ERROR!''"

definition NAME_TOKEN :: string where
  "NAME_TOKEN = ''#NAME?''"

definition DIV0_TOKEN :: string where
  "DIV0_TOKEN = ''#DIV/0!''"

subsection \<open>Strings\<close>

text \<open>\<open>str.strip()\<close> removes white space at both ends; \<open>str(i)\<close> of an \<open>int\<close>;
  \<open>s.split(',')\<close>.\<close>

definition is_space :: "char \<Rightarrow> bool" where
  "is_space c = (ord c \<in> {9, 10, 11, 12, 13, 28, 29, 30, 31, 32})"

definition strip :: "string \<Rightarrow> string" where
  "strip s = rev (dropWhile is_space (rev (dropWhile is_space s)))"

function digits_of_nat :: "nat \<Rightarrow> string" where
  "digits_of_nat n =
     (if n < 10 then [chr (ord CHR ''0'' + int n)]
      else digits_of_nat (n div 10) @ [chr (ord CHR ''0'' + int (n mod 10))])"
  by pat_completeness auto
termination
  by (relation "measure id") auto

definition str_of_int :: "int \<Rightarrow> string" where
  "str_of_int i = (if i < 0 then CHR ''-'' # digits_of_nat (nat (- i)) else digits_of_nat (nat i))"

fun split_comma :: "string \<Rightarrow> string list" where
  "split_comma [] = [[]]"
| "split_comma (c # cs) =
     (if c = CHR '','' then [] # split_comma cs
      else (case split_comma cs of p # ps \<Rightarrow> (c # p) # ps | [] \<Rightarrow> [[c]]))"

definition cell_str :: "CellRef \<Rightarrow> string" where
  "cell_str c = column c @ str_of_int (row c)"

subsection \<open>Columns and cells\<close>

fun find_column_by_letter :: "string \<Rightarrow> column_def list \<Rightarrow> column_def option" where
  "find_column_by_letter letter [] = None"
| "find_column_by_letter letter (col # cols) =
     (if key col = letter then Some col else find_column_by_letter letter cols)"

fun letter_to_column_key :: "string \<Rightarrow> column_def list \<Rightarrow> string option" where
  "letter_to_column_key letter [] = None"
| "letter_to_column_key letter (col # cols) =
     (if key col = letter then Some (key col) else letter_to_column_key letter cols)"

definition row_get :: "'n grid_row \<Rightarrow> string \<Rightarrow> 'n pyval \<Rightarrow> 'n pyval" where
  "row_get r k dflt = (case map_of r k of Some v \<Rightarrow> v | None \<Rightarrow> dflt)"

text \<open>\<open>_get_numeric_value\<close>: a number as it is; of a string only the digits, the points
  and the minus signs are kept and parsed, and an empty or unparsable rest is \<open>0\<close>; anything
  else is \<open>0\<close>.\<close>

definition get_numeric_value :: "'n float_ops \<Rightarrow> 'n pyval \<Rightarrow> 'n" where
  "get_numeric_value ops v =
     (case v of
        Number n \<Rightarrow> n
      | Text s \<Rightarrow>
          (let cleaned = filter (\<lambda>c. is_digit c \<or> c = CHR ''.'' \<or> c = CHR ''-'') s
           in if cleaned = [] then zero ops
              else (case parse_float ops cleaned of Some n \<Rightarrow> n | None \<Rightarrow> zero ops))
      | NoneVal \<Rightarrow> zero ops)"

definition get_cell_value :: "'n float_ops \<Rightarrow> string \<Rightarrow> int \<Rightarrow> 'n grid \<Rightarrow> column_def list \<Rightarrow> 'n" where
  "get_cell_value ops col_ref row_index data_context columns_context =
     (if row_index < 0 \<or> row_index \<ge> int (length data_context) then zero ops
      else case find_column_by_letter col_ref columns_context of
             None \<Rightarrow> zero ops
           | Some col \<Rightarrow>
               get_numeric_value ops (row_get (data_context ! nat row_index) (key col) (Number (zero ops))))"

text \<open>The pattern \<open>^([A-Z]+)(\d+)$\<close> and the range pattern \<open>^([A-Z]+)(\d+):([A-Z]+)(\d+)$\<close>
  on a stripped string.\<close>

definition match_cell_ref :: "string \<Rightarrow> (string \<times> string) option" where
  "match_cell_ref s =
     (case letters_digits s of
        Some (col, rw, rest) \<Rightarrow> if rest = [] then Some (col, rw) else None
      | None \<Rightarrow> None)"

definition match_range_ref :: "string \<Rightarrow> (string \<times> string \<times> string \<times> string) option" where
  "match_range_ref s =
     (case letters_digits s of
        Some (start_col, start_row, rest) \<Rightarrow>
          (case rest of
             c # rest1 \<Rightarrow>
               if c = CHR '':'' then
                 (case letters_digits rest1 of
                    Some (end_col, end_row, rest2) \<Rightarrow>
                      if rest2 = [] then Some (start_col, start_row, end_col, end_row) else None
                  | None \<Rightarrow> None)
               else None
           | [] \<Rightarrow> None)
      | None \<Rightarrow> None)"

definition parse_value :: "'n float_ops \<Rightarrow> string \<Rightarrow> 'n grid \<Rightarrow> column_def list \<Rightarrow> 'n" where
  "parse_value ops v data_context columns_context =
     (case match_cell_ref v of
        Some (col_ref, row_ref) \<Rightarrow>
          get_cell_value ops col_ref (int_of_digits row_ref - 1) data_context columns_context
      | None \<Rightarrow> get_numeric_value ops (Text v))"

definition perform_arithmetic :: "'n float_ops \<Rightarrow> 'n \<Rightarrow> char \<Rightarrow> 'n \<Rightarrow> 'n pyval" where
  "perform_arithmetic ops left operator right =
     (if operator = CHR ''+'' then Number (f_add ops left right)
      else if operator = CHR ''-'' then Number (f_sub ops left right)
      else if operator = CHR ''*'' then Number (f_mul ops left right)
      else if operator = CHR ''/'' then
        (if \<not> is_zero ops right then Number (f_div ops left right) else Text DIV0_TOKEN)
      else Text ERROR_TOKEN)"

subsection \<open>The functions\<close>

text \<open>The rows \<open>range(start_row_idx, min(end_row_idx + 1, len(data_context)))\<close> that pass
  the test \<open>i >= 0\<close>.\<close>

definition range_rows :: "int \<Rightarrow> int \<Rightarrow> 'n grid \<Rightarrow> int list" where
  "range_rows start_row_idx end_row_idx data_context =
     filter (\<lambda>i. i \<ge> 0) [start_row_idx .. min (end_row_idx + 1) (int (length data_context)) - 1]"

text \<open>\<open>ord(start_col)\<close> raises \<open>TypeError\<close> unless the string has one character; the
  \<open>except\<close> clause of the function turns that into the error token.\<close>

definition ord_str :: "string \<Rightarrow> int option" where
  "ord_str s = (case s of [c] \<Rightarrow> Some (ord c) | _ \<Rightarrow> None)"

definition calculate_sum :: "'n float_ops \<Rightarrow> string \<Rightarrow> 'n grid \<Rightarrow> column_def list \<Rightarrow> 'n pyval" where
  "calculate_sum ops args_str0 data_context columns_context =
     (let args_str = strip args_str0 in
      case match_range_ref args_str of
        Some (start_col, start_row, end_col, end_row) \<Rightarrow>
          (case (ord_str start_col, ord_str end_col) of
             (Some sc, Some ec) \<Rightarrow>
               Number (foldl (\<lambda>acc_total row_idx.
                         foldl (\<lambda>acc_total col_idx.
                                  f_add ops acc_total
                                    (get_cell_value ops [chr (ord CHR ''A'' + col_idx)] row_idx
                                       data_context columns_context))
                               acc_total [sc - ord CHR ''A'' .. ec - ord CHR ''A''])
                       (zero ops)
                       (range_rows (int_of_digits start_row - 1) (int_of_digits end_row - 1) data_context))
           | _ \<Rightarrow> Text ERROR_TOKEN)
      | None \<Rightarrow>
          if CHR '','' \<in> set args_str then
            foldl (\<lambda>acc cell_ref.
                     case acc of
                       Number acc_total \<Rightarrow>
                         (case match_cell_ref cell_ref of
                            Some (col_ref, row_ref) \<Rightarrow>
                              Number (f_add ops acc_total
                                (get_cell_value ops col_ref (int_of_digits row_ref - 1)
                                   data_context columns_context))
                          | None \<Rightarrow>
                              (case parse_float ops cell_ref of
                                 Some x \<Rightarrow> Number (f_add ops acc_total x)
                               | None \<Rightarrow> Text ERROR_TOKEN))
                     | other \<Rightarrow> other)
                  (Number (zero ops)) (map strip (split_comma args_str))
          else
            (case match_cell_ref args_str of
               Some (col_ref, row_ref) \<Rightarrow>
                 Number (get_cell_value ops col_ref (int_of_digits row_ref - 1) data_context columns_context)
             | None \<Rightarrow>
                 (case parse_float ops args_str of
                    Some x \<Rightarrow> Number x
                  | None \<Rightarrow> Text ERROR_TOKEN)))"

definition calculate_average :: "'n float_ops \<Rightarrow> string \<Rightarrow> 'n grid \<Rightarrow> column_def list \<Rightarrow> 'n pyval" where
  "calculate_average ops args_str0 data_context columns_context =
     (let args_str = strip args_str0 in
      case match_range_ref args_str of
        Some (start_col, start_row, end_col, end_row) \<Rightarrow>
          (case calculate_sum ops args_str data_context columns_context of
             Number sum_result \<Rightarrow>
               (case (ord_str start_col, ord_str end_col) of
                  (Some sc, Some ec) \<Rightarrow>
                    (let num_cols = (ec - ord CHR ''A'') - (sc - ord CHR ''A'') + 1;
                         num_rows = int_of_digits end_row - int_of_digits start_row + 1;
                         count = num_cols * num_rows
                     in if count > 0 then Number (f_div ops sum_result (of_count ops count))
                        else Text DIV0_TOKEN)
                | _ \<Rightarrow> Text ERROR_TOKEN)
           | other \<Rightarrow> other)
      | None \<Rightarrow>
          if CHR '','' \<in> set args_str then
            (case calculate_sum ops args_str data_context columns_context of
               Number sum_result \<Rightarrow>
                 (let count = int (length (split_comma args_str))
                  in if count > 0 then Number (f_div ops sum_result (of_count ops count))
                     else Text DIV0_TOKEN)
             | other \<Rightarrow> other)
          else
            (case match_cell_ref args_str of
               Some (col_ref, row_ref) \<Rightarrow> calculate_sum ops args_str data_context columns_context
             | None \<Rightarrow>
                 (case parse_float ops args_str of
                    Some x \<Rightarrow> Number x
                  | None \<Rightarrow> Text ERROR_TOKEN)))"

text \<open>\<open>min(values)\<close> and \<open>max(values)\<close> keep the first of equal extremes.\<close>

definition py_min :: "'n float_ops \<Rightarrow> 'n list \<Rightarrow> 'n" where
  "py_min ops xs = foldl (\<lambda>m x. if f_less ops x m then x else m) (hd xs) (tl xs)"

definition py_max :: "'n float_ops \<Rightarrow> 'n list \<Rightarrow> 'n" where
  "py_max ops xs = foldl (\<lambda>m x. if f_less ops m x then x else m) (hd xs) (tl xs)"

definition range_values :: "'n float_ops \<Rightarrow> column_def \<Rightarrow> int \<Rightarrow> int \<Rightarrow> 'n grid \<Rightarrow> 'n list" where
  "range_values ops col start_row_idx end_row_idx data_context =
     map (\<lambda>i. get_numeric_value ops (row_get (data_context ! nat i) (key col) (Number (zero ops))))
         (range_rows start_row_idx end_row_idx data_context)"

definition calculate_min :: "'n float_ops \<Rightarrow> string \<Rightarrow> 'n grid \<Rightarrow> column_def list \<Rightarrow> 'n pyval" where
  "calculate_min ops range_str data_context columns_context =
     (case match_range_ref (strip range_str) of
        None \<Rightarrow> Text ERROR_TOKEN
      | Some (start_col, start_row, end_col, end_row) \<Rightarrow>
          (case find_column_by_letter start_col columns_context of
             None \<Rightarrow> Text ERROR_TOKEN
           | Some col \<Rightarrow>
               (let values = range_values ops col (int_of_digits start_row - 1)
                               (int_of_digits end_row - 1) data_context
                in if values \<noteq> [] then Number (py_min ops values) else Number (zero ops))))"

definition calculate_max :: "'n float_ops \<Rightarrow> string \<Rightarrow> 'n grid \<Rightarrow> column_def list \<Rightarrow> 'n pyval" where
  "calculate_max ops range_str data_context columns_context =
     (case match_range_ref (strip range_str) of
        None \<Rightarrow> Text ERROR_TOKEN
      | Some (start_col, start_row, end_col, end_row) \<Rightarrow>
          (case find_column_by_letter start_col columns_context of
             None \<Rightarrow> Text ERROR_TOKEN
           | Some col \<Rightarrow>
               (let values = range_values ops col (int_of_digits start_row - 1)
                               (int_of_digits end_row - 1) data_context
                in if values \<noteq> [] then Number (py_max ops values) else Number (zero ops))))"

text \<open>\<open>_calculate_count\<close>: the test is \<open>value and str(value).strip()\<close>, so a value counts
  when it is truthy and its string is not blank.\<close>

definition truthy :: "'n float_ops \<Rightarrow> 'n pyval \<Rightarrow> bool" where
  "truthy ops v = (case v of Number n \<Rightarrow> \<not> is_zero ops n | Text s \<Rightarrow> s \<noteq> [] | NoneVal \<Rightarrow> False)"

definition py_str :: "'n float_ops \<Rightarrow> 'n pyval \<Rightarrow> string" where
  "py_str ops v = (case v of Number n \<Rightarrow> number_str ops n | Text s \<Rightarrow> s | NoneVal \<Rightarrow> ''None'')"

definition calculate_count :: "'n float_ops \<Rightarrow> string \<Rightarrow> 'n grid \<Rightarrow> column_def list \<Rightarrow> 'n pyval" where
  "calculate_count ops range_str data_context columns_context =
     (case match_range_ref (strip range_str) of
        None \<Rightarrow> Text ERROR_TOKEN
      | Some (start_col, start_row, end_col, end_row) \<Rightarrow>
          (case find_column_by_letter start_col columns_context of
             None \<Rightarrow> Text ERROR_TOKEN
           | Some col \<Rightarrow>
               Number (of_count ops
                 (foldl (\<lambda>count i.
                           (let v = row_get (data_context ! nat i) (key col) (Text [])
                            in if truthy ops v \<and> strip (py_str ops v) \<noteq> [] then count + 1 else count))
                        0
                        (range_rows (int_of_digits start_row - 1) (int_of_digits end_row - 1)
                           data_context)))))"

subsection \<open>Evaluating one formula\<close>

text \<open>\<open>re.match(r'([A-Z]+)\(([^)]+)\)', expression)\<close>: capital letters, an opening
  parenthesis, at least one character other than a closing parenthesis, and the closing
  parenthesis; what follows is not looked at.\<close>

definition match_function :: "string \<Rightarrow> (string \<times> string) option" where
  "match_function s =
     (let func_name = takeWhile is_upper_letter s; s1 = dropWhile is_upper_letter s
      in if func_name = [] then None
         else case s1 of
                c # s2 \<Rightarrow>
                  if c = CHR ''('' then
                    (let args = takeWhile (\<lambda>x. x \<noteq> CHR '')'') s2; s3 = dropWhile (\<lambda>x. x \<noteq> CHR '')'') s2
                     in if args = [] \<or> s3 = [] then None else Some (func_name, args))
                  else None
              | [] \<Rightarrow> None)"

text \<open>\<open>re.match(r'^(.+?)([\+\-\*\/])(.+?)$', expression)\<close> on a stripped string: the dot
  matches no line feed, the first group is as short as can be and not empty, and the last
  group is the non-empty rest. So the split is at the first operator character, from the
  second character on, that has something behind it.\<close>

definition is_operator :: "char \<Rightarrow> bool" where
  "is_operator c = (c = CHR ''+'' \<or> c = CHR ''-'' \<or> c = CHR ''*'' \<or> c = CHR ''/'')"

fun arithmetic_scan :: "string \<Rightarrow> string \<Rightarrow> (string \<times> char \<times> string) option" where
  "arithmetic_scan left [] = None"
| "arithmetic_scan left (c # cs) =
     (if is_operator c \<and> cs \<noteq> [] then Some (left, c, cs)
      else arithmetic_scan (left @ [c]) cs)"

definition match_arithmetic :: "string \<Rightarrow> (string \<times> char \<times> string) option" where
  "match_arithmetic s =
     (if CHR 0x0A \<in> set s then None
      else case s of [] \<Rightarrow> None | c # cs \<Rightarrow> arithmetic_scan [c] cs)"

definition call_function :: "'n float_ops \<Rightarrow> string \<Rightarrow> (string \<Rightarrow> 'n grid \<Rightarrow> column_def list \<Rightarrow> 'n pyval) option" where
  "call_function ops func_name =
     (if func_name = ''SUM'' then Some (calculate_sum ops)
      else if func_name = ''AVERAGE'' then Some (calculate_average ops)
      else if func_name = ''MIN'' then Some (calculate_min ops)
      else if func_name = ''MAX'' then Some (calculate_max ops)
      else if func_name = ''COUNT'' then Some (calculate_count ops)
      else None)"

definition evaluate_formula :: "'n float_ops \<Rightarrow> string \<Rightarrow> 'n grid \<Rightarrow> column_def list \<Rightarrow> 'n pyval" where
  "evaluate_formula ops formula_text data_context columns_context =
     (let expression = strip (upper (drop 1 formula_text)) in
      if expression = [] then Text ERROR_TOKEN
      else case match_function expression of
        Some (func_name, args) \<Rightarrow>
          (case call_function ops func_name of
             Some f \<Rightarrow> f args data_context columns_context
           | None \<Rightarrow> Text NAME_TOKEN)
      | None \<Rightarrow>
          (case match_cell_ref expression of
             Some (col_ref, row_ref) \<Rightarrow>
               Number (get_cell_value ops col_ref (int_of_digits row_ref - 1) data_context columns_context)
           | None \<Rightarrow>
               (case match_arithmetic expression of
                  Some (left, operator, right) \<Rightarrow>
                    perform_arithmetic ops
                      (parse_value ops (strip left) data_context columns_context) operator
                      (parse_value ops (strip right) data_context columns_context)
                | None \<Rightarrow>
                    (case parse_float ops expression of
                       Some x \<Rightarrow> Number x
                     | None \<Rightarrow> Text ERROR_TOKEN))))"

subsection \<open>The evaluation pass\<close>

text \<open>What \<open>evaluate_formulas\<close> returns: the flag, the top-level error text, the message,
  the per-cell errors, the grid, and of the statistics the three counters and the rendered
  evaluation order (the graph statistics are only reported and are left out).\<close>

record 'n evaluation_result =
  success :: bool
  error :: "string option"
  message :: string
  cell_errors :: "(string \<times> string) list"
  data :: "'n grid"
  stats_evaluated :: nat
  stats_errors :: nat
  stats_cached :: nat
  stats_evaluation_order :: "string list"

definition cell_key :: "int \<Rightarrow> string \<Rightarrow> string" where
  "cell_key row_index column_key = str_of_int row_index @ ''-'' @ column_key"

text \<open>\<open>_validate_dependencies\<close> keeps the dependencies whose row exists; its column test
  looks at the method object \<open>self._letter_to_column_key\<close>, which is never false.\<close>

definition validate_dependencies :: "CellRef list \<Rightarrow> 'n grid \<Rightarrow> CellRef list" where
  "validate_dependencies deps data_context =
     filter (\<lambda>dep. \<not> (row dep < 1 \<or> row dep > int (length data_context))) deps"

definition map_dependencies :: "CellRef list \<Rightarrow> column_def list \<Rightarrow> CellRef list" where
  "map_dependencies deps cols =
     foldl (\<lambda>mapped dep.
              case letter_to_column_key (column dep) cols of
                Some mapped_key \<Rightarrow>
                  if mapped_key \<noteq> [] then set_add (CellRef mapped_key (row dep)) mapped else mapped
              | None \<Rightarrow> mapped)
           [] deps"

text \<open>\<open>_build_dependency_graph\<close>: one step for a cell of the grid, the loop over the columns
  of a row, and the loop over the rows, starting from a new graph and no errors.\<close>

definition build_cell :: "'n grid \<Rightarrow> column_def list \<Rightarrow> nat \<Rightarrow> 'n grid_row
     \<Rightarrow> 'v DependencyGraph \<times> (string \<times> string) list \<Rightarrow> column_def
     \<Rightarrow> 'v DependencyGraph \<times> (string \<times> string) list" where
  "build_cell data_context cols row_index rw = (\<lambda>(g, circular_dependency_errors) col.
     case row_get rw (key col) (Text []) of
       Text cell_value \<Rightarrow>
         if take 1 cell_value = ''='' then
           (let cell = CellRef (key col) (int row_index + 1);
                deps = extract_dependencies cell_value;
                mapped_dependencies = map_dependencies deps cols;
                valid_dependencies = validate_dependencies mapped_dependencies data_context;
                (ok, g') = add_formula cell cell_value valid_dependencies g
            in if \<not> ok
               then (g', dict_set (cell_key (int row_index) (key col)) ''Circular dependency detected''
                           circular_dependency_errors)
               else (g', circular_dependency_errors))
         else (g, circular_dependency_errors)
     | _ \<Rightarrow> (g, circular_dependency_errors))"

definition build_row :: "'n grid \<Rightarrow> column_def list
     \<Rightarrow> 'v DependencyGraph \<times> (string \<times> string) list \<Rightarrow> nat \<times> 'n grid_row
     \<Rightarrow> 'v DependencyGraph \<times> (string \<times> string) list" where
  "build_row data_context cols = (\<lambda>st (row_index, rw).
     foldl (build_cell data_context cols row_index rw) st cols)"

definition build_dependency_graph :: "'n grid \<Rightarrow> column_def list
     \<Rightarrow> 'v DependencyGraph \<times> (string \<times> string) list" where
  "build_dependency_graph data_context cols =
     foldl (build_row data_context cols) (empty_graph, []) (enumerate 0 data_context)"

text \<open>One round of the loop over the evaluation order. The state is the graph, the working
  copy of the grid, the counters \<open>evaluated\<close>, \<open>errors\<close>, \<open>cached\<close> and the cell errors. The
  \<open>except\<close> clause of the loop body is entered when the node is not found; its assignment
  into the grid is modelled for the rows that exist.\<close>

type_synonym 'n eval_state =
  "'n pyval DependencyGraph \<times> 'n grid \<times> nat \<times> nat \<times> nat \<times> (string \<times> string) list"

definition grid_set :: "'n grid \<Rightarrow> int \<Rightarrow> string \<Rightarrow> 'n pyval \<Rightarrow> 'n grid" where
  "grid_set d row_index column_key v = d[nat row_index := dict_set column_key v (d ! nat row_index)]"

definition cell_repr :: "CellRef \<Rightarrow> string" where
  "cell_repr c = ''CellRef(column='' @ [CHR 0x27] @ column c @ [CHR 0x27] @ '', row='' @ str_of_int (row c) @ '')''"

definition evaluate_cell :: "'n float_ops \<Rightarrow> column_def list \<Rightarrow> 'n eval_state \<Rightarrow> CellRef \<Rightarrow> 'n eval_state" where
  "evaluate_cell ops cols = (\<lambda>(g, new_data, evaluated, errors, cached, cell_errs) cell.
     let row_index = row cell - 1;
         column_key = letter_to_column_key (column cell) cols;
         has_key = (case column_key of Some k \<Rightarrow> k \<noteq> [] | None \<Rightarrow> False);
         the_key = (case column_key of Some k \<Rightarrow> k | None \<Rightarrow> [])
     in case map_of (nodes g) cell of
          None \<Rightarrow>
            (let k = (if has_key then cell_key row_index the_key else cell_key row_index (column cell))
             in if 0 \<le> row_index \<and> row_index < int (length new_data) \<and> has_key
                then (mark_cell_evaluated cell (Some (Text ERROR_TOKEN)) True (Some (cell_repr cell)) g,
                      grid_set new_data row_index the_key (Text ERROR_TOKEN),
                      evaluated, errors + 1, cached, dict_set k (cell_repr cell) cell_errs)
                else (g, new_data, evaluated, errors + 1, cached, dict_set k (cell_repr cell) cell_errs))
        | Some node \<Rightarrow>
            if is_evaluated node then (g, new_data, evaluated, errors, cached + 1, cell_errs)
            else if row_index < 0 \<or> row_index \<ge> int (length new_data) \<or> \<not> has_key
            then (g, new_data, evaluated, errors, cached,
                  dict_set (cell_key row_index (column cell)) ''Invalid cell reference'' cell_errs)
            else
              (let result = evaluate_formula ops (formula node) new_data cols;
                   k = cell_key row_index the_key
               in case result of
                    Text s \<Rightarrow>
                      if take 1 s = ''#''
                      then (mark_cell_evaluated cell (Some result) True (Some s) g,
                            grid_set new_data row_index the_key result,
                            evaluated, errors + 1, cached, dict_set k s cell_errs)
                      else (mark_cell_evaluated cell (Some result) False None g,
                            grid_set new_data row_index the_key (Text s),
                            evaluated + 1, errors, cached, cell_errs)
                  | Number n \<Rightarrow>
                      (mark_cell_evaluated cell (Some result) False None g,
                       grid_set new_data row_index the_key (Text (format_number ops n)),
                       evaluated + 1, errors, cached, cell_errs)
                  | NoneVal \<Rightarrow>
                      (mark_cell_evaluated cell None False None g,
                       grid_set new_data row_index the_key (Text ''0''),
                       evaluated + 1, errors, cached, cell_errs)))"

definition join_arrow :: "string list \<Rightarrow> string" where
  "join_arrow xs = (case xs of [] \<Rightarrow> [] | x # rest \<Rightarrow> foldl (\<lambda>acc y. acc @ '' -> '' @ y) x rest)"

text \<open>\<open>evaluate_formulas\<close>: build the graph, check for cycles, then either abort with the
  original grid or evaluate in order. A search that does not finish is an exception, which
  the outer \<open>except\<close> clause reports as a failure with the original grid.\<close>

definition evaluate_formulas :: "'n float_ops \<Rightarrow> 'n grid \<Rightarrow> column_def list \<Rightarrow> 'n evaluation_result" where
  "evaluate_formulas ops data_context cols =
     (let (g, circular_dependency_errors) = build_dependency_graph data_context cols
      in case has_circular_dependency g of
           None \<Rightarrow>
             \<lparr>success = False, error = Some ''maximum recursion depth exceeded'',
              message = ''Failed to evaluate formulas'', cell_errors = circular_dependency_errors,
              data = data_context, stats_evaluated = 0, stats_errors = 0, stats_cached = 0,
              stats_evaluation_order = []\<rparr>
         | Some (has_cycles, cycle_path) \<Rightarrow>
             if has_cycles then
               (let path = (case cycle_path of Some p \<Rightarrow> p | None \<Rightarrow> []);
                    cycle_str = (if path \<noteq> [] then join_arrow (map cell_str path) else ''Unknown'');
                    cycle_errors =
                      foldl (\<lambda>errs c.
                               if 0 \<le> row c - 1 \<and> row c - 1 < int (length data_context)
                               then dict_set (cell_key (row c - 1) (column c))
                                      (''Circular dependency: '' @ cycle_str) errs
                               else errs)
                            [] path
                in \<lparr>success = False, error = Some (''Circular dependency detected: '' @ cycle_str),
                    message = ''Circular dependencies must be resolved before evaluation'',
                    cell_errors = cycle_errors, data = data_context,
                    stats_evaluated = 0, stats_errors = 0, stats_cached = 0,
                    stats_evaluation_order = []\<rparr>)
             else
               (let evaluation_order = get_evaluation_order g;
                    (g', new_data, evaluated, errors, cached, cell_errs) =
                       foldl (evaluate_cell ops cols) (g, data_context, 0, 0, 0, []) evaluation_order
                in \<lparr>success = True, error = None,
                    message = ''Evaluated '' @ str_of_int (int evaluated) @ '' formulas successfully'',
                    cell_errors = foldl (\<lambda>d (k, v). dict_set k v d) circular_dependency_errors cell_errs,
                    data = new_data, stats_evaluated = evaluated, stats_errors = errors,
                    stats_cached = cached, stats_evaluation_order = map cell_str evaluation_order\<rparr>))"

subsection \<open>An instance of the numbers\<close>

text \<open>For evaluating concrete grids: the rationals with exact arithmetic, decimal literals
  (an optional sign, digits, an optional point and digits) parsed exactly, and integral
  values printed without a decimal point, as \<open>_format_number\<close> prints them. On integers of
  the size used below Python's floating-point arithmetic gives the same values. A value that
  is not integral is printed as a fraction, which is not Python's output; no grid evaluated
  below produces one.\<close>

definition digits_value :: "string \<Rightarrow> nat" where
  "digits_value s = foldl (\<lambda>n c. n * 10 + nat (ord c - ord CHR ''0'')) 0 s"

definition parse_decimal :: "string \<Rightarrow> rat option" where
  "parse_decimal s0 =
     (let neg = (take 1 s0 = ''-'');
          s = (if take 1 s0 = ''-'' \<or> take 1 s0 = ''+'' then drop 1 s0 else s0);
          ip = takeWhile is_digit s;
          r1 = dropWhile is_digit s;
          fp = (if take 1 r1 = ''.'' then takeWhile is_digit (drop 1 r1) else []);
          r2 = (if take 1 r1 = ''.'' then dropWhile is_digit (drop 1 r1) else r1);
          v = of_nat (digits_value ip) + of_nat (digits_value fp) / of_nat (10 ^ length fp)
      in if r2 \<noteq> [] \<or> (ip = [] \<and> fp = []) then None
         else Some (if neg then - v else v))"

definition rat_str :: "rat \<Rightarrow> string" where
  "rat_str r = (case quotient_of r of (p, q) \<Rightarrow>
                  if q = 1 then str_of_int p else str_of_int p @ ''/'' @ str_of_int q)"

definition exact_ops :: "rat float_ops" where
  "exact_ops = \<lparr>parse_float = parse_decimal, zero = 0, of_count = of_int,
                 f_add = (+), f_sub = (-), f_mul = (*), f_div = (/),
                 is_zero = (\<lambda>x. x = 0), f_less = (<),
                 number_str = rat_str, format_number = rat_str\<rparr>"

subsection \<open>Cycles in the adjacency sets\<close>













subsection \<open>Reachable graph states\<close>


definition deps_of :: "'v DependencyGraph \<Rightarrow> CellRef \<Rightarrow> CellRef set option" where
  "deps_of g c = map_option (\<lambda>n. set (dependencies n)) (map_of (nodes g) c)"





section \<open>Properties of the reference parser\<close>

lemma ord_A [simp]: "ord CHR ''A'' = 65"
  by (simp add: ord_def)

lemma chr_ord [simp]: "chr (ord c) = c"
  by (simp add: chr_def ord_def)

lemma upper_char_upper [simp]: "is_upper_letter c \<Longrightarrow> upper_char c = c"
  by (auto simp: upper_char_def is_upper_letter_def is_lower_letter_def)

lemma upper_id: "\<forall>c\<in>set s. is_upper_letter c \<Longrightarrow> upper s = s"
  by (induction s) (auto simp: upper_def)

lemma number_to_column_loop_acc:
  "number_to_column_loop num (acc @ rest) = number_to_column_loop num acc @ rest"
proof (induction num acc rule: number_to_column_loop.induct)
  case (1 num result)
  show ?case
  proof (cases "num > 0")
    case True
    have "number_to_column_loop num (result @ rest)
        = number_to_column_loop ((num - 1) div 26) ((chr (ord CHR ''A'' + ((num - 1) mod 26)) # result) @ rest)"
      using True by (subst number_to_column_loop.simps) simp
    also have "\<dots> = number_to_column_loop ((num - 1) div 26) (chr (ord CHR ''A'' + ((num - 1) mod 26)) # result) @ rest"
      using "1.IH" [OF True] .
    also have "\<dots> = number_to_column_loop num result @ rest"
      using True by (subst (2) number_to_column_loop.simps) simp
    finally show ?thesis .
  next
    case False
    then show ?thesis by (simp add: number_to_column_loop.simps)
  qed
qed

lemma column_fold_nonneg:
  "0 \<le> n \<Longrightarrow> \<forall>c\<in>set s. is_upper_letter c \<Longrightarrow>
   0 \<le> foldl (\<lambda>result char. result * 26 + (ord char - ord CHR ''A'' + 1)) n s"
  by (induction s arbitrary: n) (auto simp: is_upper_letter_def)

lemma number_to_column_snoc:
  assumes "0 \<le> n" "is_upper_letter c"
  shows "number_to_column (n * 26 + (ord c - ord CHR ''A'' + 1)) = number_to_column n @ [c]"
proof -
  let ?m = "n * 26 + (ord c - ord CHR ''A'' + 1)"
  have d: "0 \<le> ord c - 65" "ord c - 65 < 26"
    using assms(2) by (auto simp: is_upper_letter_def)
  have pos: "?m > 0" using assms(1) d by simp
  have eq: "?m - 1 = n * 26 + (ord c - 65)" by simp
  have dv: "(?m - 1) div 26 = n" unfolding eq using d by simp
  have md: "(?m - 1) mod 26 = ord c - 65" unfolding eq using d by simp
  have "number_to_column ?m = number_to_column_loop n ([] @ [chr (65 + (ord c - 65))])"
    unfolding number_to_column_def
    using pos dv md by (subst number_to_column_loop.simps) simp
  also have "\<dots> = number_to_column_loop n [] @ [c]"
    by (subst number_to_column_loop_acc) simp
  finally show ?thesis by (simp add: number_to_column_def)
qed

lemma number_to_column_fold:
  "\<forall>c\<in>set s. is_upper_letter c \<Longrightarrow>
   number_to_column (foldl (\<lambda>result char. result * 26 + (ord char - ord CHR ''A'' + 1)) 0 s) = s"
proof (induction s rule: rev_induct)
  case Nil
  then show ?case by (simp add: number_to_column_def number_to_column_loop.simps)
next
  case (snoc c s)
  have nn: "0 \<le> foldl (\<lambda>result char. result * 26 + (ord char - ord CHR ''A'' + 1)) 0 s"
    using snoc.prems by (intro column_fold_nonneg) auto
  show ?case
    using snoc number_to_column_snoc [OF nn, of c] by simp
qed

text \<open>C9: for every string of capital letters \<open>A\<close> to \<open>Z\<close>, converting the column to its
  number and the number back to letters gives the string again.\<close>

theorem column_roundtrip:
  "\<forall>c\<in>set col. is_upper_letter c \<Longrightarrow> number_to_column (column_to_number col) = col"
  unfolding column_to_number_def by (simp only: upper_id number_to_column_fold)

theorem column_roundtrip_witness:
  "column_to_number ''AZ'' = 52 \<and> number_to_column (column_to_number ''AZ'') = ''AZ''"
proof -
  have h: "\<forall>c\<in>set ''AZ''. is_upper_letter c"
    by (simp add: is_upper_letter_def ord_def)
  have n: "column_to_number ''AZ'' = 52"
    by (simp add: column_to_number_def upper_def upper_char_def is_lower_letter_def ord_def)
  show ?thesis using h n column_roundtrip [OF h] by simp
qed

lemma set_set_add [simp]: "set (set_add x xs) = insert x (set xs)"
  by (auto simp: set_add_def)

lemma set_set_update [simp]: "set (set_update xs ys) = set xs \<union> set ys"
  unfolding set_update_def by (induction ys arbitrary: xs) auto

lemma set_foldl_set_add: "set (foldl (\<lambda>cells r. set_add (f r) cells) cells rs) = set cells \<union> f ` set rs"
  by (induction rs arbitrary: cells) auto

lemma set_foldl_rows:
  "set (foldl (\<lambda>cells k. foldl (\<lambda>cells r. set_add (f k r) cells) cells rs) cells ks)
     = set cells \<union> {f k r | k r. k \<in> set ks \<and> r \<in> set rs}"
  by (induction ks arbitrary: cells) (auto simp: set_foldl_set_add)

lemma set_expand_range:
  "set (expand_range c1 r1 c2 r2) =
     {CellRef (number_to_column k) r | k r.
        min (column_to_number c1) (column_to_number c2) \<le> k \<and> k \<le> max (column_to_number c1) (column_to_number c2)
      \<and> min r1 r2 \<le> r \<and> r \<le> max r1 r2}"
  unfolding expand_range_def Let_def
  by (simp add: set_foldl_rows split: if_splits prod.splits)

lemma expand_range_symmetric: "set (expand_range c1 r1 c2 r2) = set (expand_range c2 r2 c1 r1)"
  unfolding set_expand_range by (auto simp: min_def max_def)

lemma takeWhile_run:
  "list_all P xs \<Longrightarrow> (ys = [] \<or> \<not> P (hd ys)) \<Longrightarrow>
   takeWhile P (xs @ ys) = xs \<and> dropWhile P (xs @ ys) = ys"
  by (induction xs) (auto simp: takeWhile_eq_Nil_iff dropWhile_eq_self_iff)

lemma digit_not_upper: "is_digit c \<Longrightarrow> \<not> is_upper_letter c"
  by (simp add: is_digit_def is_upper_letter_def)

lemma upper_not_digit: "is_upper_letter c \<Longrightarrow> \<not> is_digit c"
  by (simp add: is_digit_def is_upper_letter_def)

lemma letters_digits_run:
  assumes "valid_column c" "valid_row r" "rest = [] \<or> \<not> is_digit (hd rest)"
  shows "letters_digits (c @ r @ rest) = Some (c, r, rest)"
proof -
  have r: "r \<noteq> []" "list_all is_digit r" and c: "c \<noteq> []" "list_all is_upper_letter c"
    using assms by (auto simp: valid_column_def valid_row_def)
  have "is_digit (hd r)" using r by (cases r) auto
  then have "\<not> is_upper_letter (hd (r @ rest))" using r by (simp add: digit_not_upper)
  then have 1: "takeWhile is_upper_letter (c @ r @ rest) = c \<and> dropWhile is_upper_letter (c @ r @ rest) = r @ rest"
    using takeWhile_run [OF c(2), of "r @ rest"] by simp
  have 2: "takeWhile is_digit (r @ rest) = r \<and> dropWhile is_digit (r @ rest) = rest"
    using takeWhile_run [OF r(2), of rest] assms(3) by simp
  show ?thesis using 1 2 c r by (simp add: letters_digits_def)
qed

lemma range_findall_unfold:
  "range_findall prev s =
     (if s = [] then []
      else case match_range prev s of
        Some ((start_col, start_row, end_col, end_row), rest) \<Rightarrow>
          (start_col, start_row, end_col, end_row) # range_findall (Some (last end_row)) rest
      | None \<Rightarrow> range_findall (Some (hd s)) (tl s))"
  by (cases s) (auto split: option.splits)

lemma range_sub_unfold:
  "range_sub prev s =
     (if s = [] then []
      else case match_range prev s of
        Some ((start_col, start_row, end_col, end_row), rest) \<Rightarrow>
          range_sub (Some (last end_row)) rest
      | None \<Rightarrow> hd s # range_sub (Some (hd s)) (tl s))"
  by (cases s) (auto split: option.splits)

lemma close_paren [simp]:
  "\<not> is_word_char CHR '')''" "\<not> is_upper_letter CHR '')''" "\<not> is_digit CHR '')''"
  "\<not> is_word_char CHR ''(''" "\<not> is_upper_letter CHR ''(''" "\<not> is_digit CHR ''(''"
  "\<not> is_digit CHR '':''"
  by (simp_all add: is_word_char_def is_upper_letter_def is_lower_letter_def is_digit_def ord_def)

lemma SUM_letters [simp]:
  "is_upper_letter CHR ''S''" "is_upper_letter CHR ''U''" "is_upper_letter CHR ''M''"
  by (simp_all add: is_upper_letter_def ord_def)

lemma upper_word [simp]: "is_upper_letter c \<Longrightarrow> is_word_char c"
  by (simp add: is_word_char_def)

lemma digit_word [simp]: "is_digit c \<Longrightarrow> is_word_char c"
  by (simp add: is_word_char_def)

lemma match_range_corners:
  assumes "valid_column c1" "valid_row r1" "valid_column c2" "valid_row r2"
  shows "match_range (Some CHR ''('') (c1 @ r1 @ '':'' @ c2 @ r2 @ '')'')
           = Some ((c1, r1, c2, r2), '')'')"
proof -
  have c1: "c1 \<noteq> []" "is_upper_letter (hd c1)"
    using assms(1) by (cases c1; simp add: valid_column_def)+
  have r2: "r2 \<noteq> []" "is_digit (last r2)"
    using assms(4) by (auto simp: valid_row_def list_all_iff)
  have b1: "at_boundary (Some CHR ''('') (c1 @ r1 @ '':'' @ c2 @ r2 @ '')'')"
    using c1 by (cases c1) (auto simp: at_boundary_def)
  have l1: "letters_digits (c1 @ r1 @ '':'' @ c2 @ r2 @ '')'') = Some (c1, r1, '':'' @ c2 @ r2 @ '')'')"
    using letters_digits_run [OF assms(1,2), of "'':'' @ c2 @ r2 @ '')''"] by simp
  have l2: "letters_digits (c2 @ r2 @ '')'') = Some (c2, r2, '')'')"
    using letters_digits_run [OF assms(3,4), of "'')''"] by simp
  have b2: "at_boundary (Some (last r2)) '')''"
    using r2 by (simp add: at_boundary_def)
  show ?thesis
    unfolding match_range_def using b1 l1 l2 b2 by simp
qed

lemma range_findall_SUM:
  assumes "valid_column c1" "valid_row r1" "valid_column c2" "valid_row r2"
  shows "range_findall None (''SUM('' @ c1 @ r1 @ '':'' @ c2 @ r2 @ '')'') = [(c1, r1, c2, r2)]"
    and "range_sub None (''SUM('' @ c1 @ r1 @ '':'' @ c2 @ r2 @ '')'') = ''SUM()''"
proof -
  let ?s = "c1 @ r1 @ '':'' @ c2 @ r2 @ '')''"
  have ne: "?s \<noteq> []" by simp
  have r2: "is_digit (last r2)"
    using assms(4) by (auto simp: valid_row_def list_all_iff)
  have tw: "takeWhile is_digit (CHR ''('' # ?s) = []" by simp
  have m0: "match_range None (''SUM('' @ ?s) = None"
    by (simp add: match_range_def letters_digits_def)
  have m1: "match_range (Some CHR ''S'') (''UM('' @ ?s) = None"
    by (simp add: match_range_def at_boundary_def)
  have m2: "match_range (Some CHR ''U'') (''M('' @ ?s) = None"
    by (simp add: match_range_def at_boundary_def)
  have m3: "match_range (Some CHR ''M'') (''('' @ ?s) = None"
    by (simp add: match_range_def letters_digits_def)
  have m4: "match_range (Some (last r2)) '')'' = None"
    by (simp add: match_range_def letters_digits_def)
  have e: "range_findall (Some CHR ''('') ?s = [(c1, r1, c2, r2)]"
    using match_range_corners [OF assms] m4 by (subst range_findall_unfold) simp
  have e': "range_sub (Some CHR ''('') ?s = '')''"
    using match_range_corners [OF assms] m4 by (subst range_sub_unfold) simp
  show "range_findall None (''SUM('' @ ?s) = [(c1, r1, c2, r2)]"
    using m0 m1 m2 m3 e by simp
  show "range_sub None (''SUM('' @ ?s) = ''SUM()''"
    using m0 m1 m2 m3 e' by simp
qed

lemma cell_findall_SUM: "cell_findall None ''SUM()'' = []"
  by (simp add: match_cell_def letters_digits_def at_boundary_def)

lemma upper_valid:
  assumes "valid_column c1" "valid_row r1" "valid_column c2" "valid_row r2"
  shows "upper (''SUM('' @ c1 @ r1 @ '':'' @ c2 @ r2 @ '')'') = ''SUM('' @ c1 @ r1 @ '':'' @ c2 @ r2 @ '')''"
proof -
  have nl: "\<And>c. is_digit c \<Longrightarrow> upper_char c = c"
    by (auto simp: upper_char_def is_digit_def is_lower_letter_def)
  have d: "\<And>r. list_all is_digit r \<Longrightarrow> map upper_char r = r"
    by (simp add: list_all_iff map_idI nl)
  have u: "\<And>c. list_all is_upper_letter c \<Longrightarrow> map upper_char c = c"
    by (simp add: list_all_iff map_idI)
  have k: "upper_char CHR ''S'' = CHR ''S''" "upper_char CHR ''U'' = CHR ''U''" "upper_char CHR ''M'' = CHR ''M''"
    "upper_char CHR ''('' = CHR ''(''" "upper_char CHR '')'' = CHR '')''" "upper_char CHR '':'' = CHR '':''"
    by (simp_all add: upper_char_def is_lower_letter_def ord_def)
  show ?thesis
    using assms by (simp add: upper_def valid_column_def valid_row_def d u k)
qed

lemma extract_dependencies_SUM:
  assumes "valid_column c1" "valid_row r1" "valid_column c2" "valid_row r2"
  shows "set (extract_dependencies (''=SUM('' @ c1 @ r1 @ '':'' @ c2 @ r2 @ '')''))
       = set (expand_range c1 (int_of_digits r1) c2 (int_of_digits r2))"
  unfolding extract_dependencies_def
  using upper_valid [OF assms] range_findall_SUM [OF assms]
  by (simp add: Let_def match_cell_def letters_digits_def at_boundary_def)

text \<open>C8: range expansion does not depend on which corner is written first. For every
  pair of corners (capital letters followed by digits), \<open>extract_dependencies\<close> of
  \<open>=SUM(c1r1:c2r2)\<close> and of \<open>=SUM(c2r2:c1r1)\<close> are the same set; for \<open>A1:B2\<close> it is
  A1, A2, B1, B2.\<close>

theorem extract_dependencies_range_symmetric:
  assumes "valid_column c1" "valid_row r1" "valid_column c2" "valid_row r2"
  shows "set (extract_dependencies (''=SUM('' @ c1 @ r1 @ '':'' @ c2 @ r2 @ '')''))
       = set (extract_dependencies (''=SUM('' @ c2 @ r2 @ '':'' @ c1 @ r1 @ '')''))"
  unfolding extract_dependencies_SUM [OF assms] extract_dependencies_SUM [OF assms(3,4,1,2)]
  by (rule expand_range_symmetric)

theorem extract_dependencies_range_symmetric_witness:
  "set (extract_dependencies ''=SUM(A1:B2)'') = {CellRef ''A'' 1, CellRef ''A'' 2, CellRef ''B'' 1, CellRef ''B'' 2}
   \<and> set (extract_dependencies ''=SUM(A1:B2)'') = set (extract_dependencies ''=SUM(B2:A1)'')"
proof -
  have v: "valid_column ''A''" "valid_row ''1''" "valid_column ''B''" "valid_row ''2''"
    by (simp_all add: valid_column_def valid_row_def is_upper_letter_def is_digit_def ord_def)
  have e: "set (extract_dependencies ''=SUM(A1:B2)'') = {CellRef ''A'' 1, CellRef ''A'' 2, CellRef ''B'' 1, CellRef ''B'' 2}"
    by code_simp
  show ?thesis
    using e extract_dependencies_range_symmetric [OF v] by simp
qed

section \<open>Properties of the dependency graph\<close>

text \<open>C5: every dependency \<open>D\<close> of a node \<open>N\<close> that is itself a node should list \<open>N\<close> among
  its dependents, also when the node for \<open>D\<close> is added after the node for \<open>N\<close>. The code
  creates every new node with an empty \<open>dependents\<close> set and never fills it from the
  adjacency list: after \<open>add_formula(A1, "=A2", {A2})\<close> and \<open>add_formula(A2, "=1", {})\<close> both
  adds succeed, A2 is a dependency of A1 and a node, and the dependents of A2 are empty.\<close>

theorem dependents_missing_after_later_add:
  "(let g1 = snd (add_formula (CellRef ''A'' 1) ''=A2'' [CellRef ''A'' 2] (empty_graph :: unit DependencyGraph));
        (ok, g2) = add_formula (CellRef ''A'' 2) ''=1'' [] g1
    in (ok, map (\<lambda>(c, n). (c, dependencies n, dependents n)) (nodes g2)))
   = (True, [(CellRef ''A'' 1, [CellRef ''A'' 2], []), (CellRef ''A'' 2, [], [])])"
  by code_simp

text \<open>C10: the getters return copies. The object returned by \<open>get_evaluation_order\<close>
  (by \<open>get_dirty_cells\<close>) is a new one holding the stored elements; whatever contents a
  caller gives it afterwards, the graph's own list and set keep theirs, and the next call
  returns the same elements again.\<close>

theorem getters_return_copies:
  assumes "refs_valid g h"
  shows "(case get_evaluation_order_obj g h of (a, h1) \<Rightarrow>
            a \<noteq> evaluation_order_ref g \<and> h1 ! a = h ! evaluation_order_ref g
          \<and> heap_mutate a xs h1 ! evaluation_order_ref g = h ! evaluation_order_ref g
          \<and> heap_mutate a xs h1 ! dirty_cells_ref g = h ! dirty_cells_ref g
          \<and> (case get_evaluation_order_obj g (heap_mutate a xs h1) of (a2, h2) \<Rightarrow> h2 ! a2 = h ! evaluation_order_ref g))
       \<and> (case get_dirty_cells_obj g h of (a, h1) \<Rightarrow>
            a \<noteq> dirty_cells_ref g \<and> h1 ! a = h ! dirty_cells_ref g
          \<and> heap_mutate a xs h1 ! dirty_cells_ref g = h ! dirty_cells_ref g
          \<and> heap_mutate a xs h1 ! evaluation_order_ref g = h ! evaluation_order_ref g
          \<and> (case get_dirty_cells_obj g (heap_mutate a xs h1) of (a2, h2) \<Rightarrow> h2 ! a2 = h ! dirty_cells_ref g))"
  using assms
  by (auto simp: refs_valid_def get_evaluation_order_obj_def get_dirty_cells_obj_def heap_copy_def
      heap_mutate_def nth_append nth_list_update)

theorem getters_return_copies_witness:
  "(case get_evaluation_order_obj \<lparr>evaluation_order_ref = 0, dirty_cells_ref = 1\<rparr> [[CellRef ''A'' 2, CellRef ''A'' 1], [CellRef ''A'' 1]] of
      (a, h1) \<Rightarrow> a = 2 \<and> h1 ! a = [CellRef ''A'' 2, CellRef ''A'' 1]
        \<and> heap_mutate a [] h1 ! 0 = [CellRef ''A'' 2, CellRef ''A'' 1]
        \<and> fst (get_evaluation_order_obj \<lparr>evaluation_order_ref = 0, dirty_cells_ref = 1\<rparr> (heap_mutate a [] h1)) = 3)"
  using getters_return_copies [of "\<lparr>evaluation_order_ref = 0, dirty_cells_ref = 1\<rparr>"
      "[[CellRef ''A'' 2, CellRef ''A'' 1], [CellRef ''A'' 1]]" "[]"]
  by (simp add: refs_valid_def get_evaluation_order_obj_def get_dirty_cells_obj_def heap_copy_def heap_mutate_def)

section \<open>Properties of the formula engine\<close>

lemma upper_A1B1C1: "strip (upper (drop 1 ''=A1+B1+C1'')) = ''A1+B1+C1''"
  by code_simp

lemma match_function_A1B1C1: "match_function ''A1+B1+C1'' = None"
  by code_simp

lemma match_cell_ref_A1B1C1: "match_cell_ref ''A1+B1+C1'' = None"
  by code_simp

lemma match_arithmetic_A1B1C1: "match_arithmetic ''A1+B1+C1'' = Some (''A1'', CHR ''+'', ''B1+C1'')"
  by code_simp

lemma strip_A1: "strip ''A1'' = ''A1''" "strip ''B1+C1'' = ''B1+C1''"
  by code_simp+

lemma match_cell_ref_operands:
  "match_cell_ref ''A1'' = Some (''A'', ''1'')" "match_cell_ref ''B1+C1'' = None"
  by code_simp+

lemma cleaned_B1C1:
  "filter (\<lambda>c. is_digit c \<or> c = CHR ''.'' \<or> c = CHR ''-'') ''B1+C1'' = ''11''"
  by code_simp

lemma numeric_B1C1:
  "get_numeric_value ops (Text ''B1+C1'') = (case parse_float ops ''11'' of Some n \<Rightarrow> n | None \<Rightarrow> zero ops)"
  unfolding get_numeric_value_def by (simp only: pyval.case cleaned_B1C1 Let_def) simp

lemma int_of_digits_1: "int_of_digits ''1'' = 1"
  by code_simp

text \<open>C6 (as the code has it): \<open>=A1+B1+C1\<close> is split by the arithmetic rule, at its
  first operator, into \<open>A1\<close> and \<open>B1+C1\<close>. The right operand is not a cell reference, so
  \<open>_parse_value\<close> hands it to \<open>_get_numeric_value\<close>, which keeps the characters \<open>11\<close> and
  parses them. The result is the number \<open>A1 + float('11')\<close>, whatever the grid; it is not
  the error token.\<close>

theorem chained_operators_split_at_first:
  "match_arithmetic ''A1+B1+C1'' = Some (''A1'', CHR ''+'', ''B1+C1'')
   \<and> evaluate_formula ops ''=A1+B1+C1'' data_context columns_context =
       Number (f_add ops (get_cell_value ops ''A'' 0 data_context columns_context)
                 (case parse_float ops ''11'' of Some n \<Rightarrow> n | None \<Rightarrow> zero ops))"
  unfolding evaluate_formula_def upper_A1B1C1 Let_def
  by (simp add: match_function_A1B1C1 match_cell_ref_A1B1C1 match_arithmetic_A1B1C1 strip_A1
      parse_value_def match_cell_ref_operands numeric_B1C1 int_of_digits_1
      perform_arithmetic_def)

text \<open>C6 as stated fails: with A1 = 1, B1 = 2, C1 = 3 the formula evaluates to 12.\<close>

theorem chained_operators_counterexample:
  "evaluate_formula exact_ops ''=A1+B1+C1''
     [[(''A'', Number 1), (''B'', Number 2), (''C'', Number 3)]]
     [\<lparr>key = ''A'', title = ''A''\<rparr>, \<lparr>key = ''B'', title = ''B''\<rparr>, \<lparr>key = ''C'', title = ''C''\<rparr>]
   = Number 12
   \<and> evaluate_formula exact_ops ''=A1+B1+C1''
     [[(''A'', Number 1), (''B'', Number 2), (''C'', Number 3)]]
     [\<lparr>key = ''A'', title = ''A''\<rparr>, \<lparr>key = ''B'', title = ''B''\<rparr>, \<lparr>key = ''C'', title = ''C''\<rparr>]
   \<noteq> Text ''#ERROR!''"
  by code_simp

text \<open>C7: COUNT should count every cell of the range whose string is not blank, a cell
  holding the number \<open>0\<close> included. The test \<open>value and str(value).strip()\<close> drops the
  number \<open>0\<close> because it is falsy, and only the start column of the range is read:
  \<open>COUNT(A1:A1)\<close> over a cell holding \<open>0\<close> is \<open>0\<close>, and \<open>COUNT(A1:B1)\<close> over two filled
  cells is \<open>1\<close>.\<close>

theorem count_skips_zero_and_other_columns:
  "evaluate_formula exact_ops ''=COUNT(A1:A1)'' [[(''A'', Number 0)]] [\<lparr>key = ''A'', title = ''A''\<rparr>]
     = Number 0
   \<and> evaluate_formula exact_ops ''=COUNT(A1:B1)'' [[(''A'', Number 1), (''B'', Number 2)]]
       [\<lparr>key = ''A'', title = ''A''\<rparr>, \<lparr>key = ''B'', title = ''B''\<rparr>]
     = Number 1"
  by code_simp

text \<open>C1 as stated fails: for the grid with A1 = \<open>=A2\<close> and A2 = \<open>=A1\<close> the second formula
  is rejected when the graph is built, the check for cycles finds none, and the pass
  succeeds with A1 evaluated and an error recorded for A2.\<close>

theorem cycle_grid_counterexample:
  "(let r = evaluate_formulas exact_ops [[(''A'', Text ''=A2'')], [(''A'', Text ''=A1'')]] [\<lparr>key = ''A'', title = ''A''\<rparr>]
    in (success r, data r, cell_errors r))
   = (True, [[(''A'', Text ''1'')], [(''A'', Text ''=A1'')]], [(''1-A'', ''Circular dependency detected'')])"
  by code_simp

section \<open>Correctness of the depth-first search\<close>

lemma set_discard_simps [simp]: "set (set_discard x xs) = set xs - {x}"
  by (auto simp: set_discard_def)

























section \<open>The cycle check of \<open>add_formula\<close>\<close>





section \<open>The graph invariant\<close>

lemma adj_get_dict_set [simp]: "adj_get (dict_set k v d) k' = (if k' = k then v else adj_get d k')"
  by (simp add: adj_get_def dict_set_def update_conv')

lemma adj_get_dict_del [simp]: "adj_get (dict_del k d) k' = (if k' = k then [] else adj_get d k')"
  by (simp add: adj_get_def dict_del_def delete_conv')

lemma map_of_dict_set [simp]: "map_of (dict_set k v d) k' = (if k' = k then Some v else map_of d k')"
  by (simp add: dict_set_def update_conv')

lemma map_of_dict_del [simp]: "map_of (dict_del k d) k' = (if k' = k then None else map_of d k')"
  by (simp add: dict_del_def delete_conv')

lemma distinct_dict_set [simp]: "distinct (map fst d) \<Longrightarrow> distinct (map fst (dict_set k v d))"
  by (simp add: dict_set_def distinct_update)

lemma distinct_dict_del [simp]: "distinct (map fst d) \<Longrightarrow> distinct (map fst (dict_del k d))"
  by (simp add: dict_del_def distinct_delete)









lemma deps_of_dependents_update:
  "map_of (nodes g) k = Some dn \<Longrightarrow>
   deps_of (g\<lparr>nodes := dict_set k (dn\<lparr>dependents := ds\<rparr>) (nodes g)\<rparr>) = deps_of g"
  by (auto simp: deps_of_def fun_eq_iff)


















lemma mark_dirty_fields [simp]:
  "adjacency_list (mark_dirty c g) = adjacency_list g" "nodes (mark_dirty c g) = nodes g"
  by (simp_all add: mark_dirty_def)

lemma update_evaluation_order_fields [simp]:
  "adjacency_list (update_evaluation_order g) = adjacency_list g"
  "nodes (update_evaluation_order g) = nodes g"
  by (simp_all add: update_evaluation_order_def Let_def)









end
